theory Spec2Isabelle
  imports Main "HOL-Library.Word"
begin

unbundle bit_operations_syntax

section \<open>JavaScript values\<close>

text \<open>
  The data layer of NGN stores JavaScript values in model fields. The embedding covers
  the primitive values: \<open>undefined\<close>, \<open>null\<close>, booleans, integral numbers and strings.
  Strings are sequences of 8-bit code units; numbers are integers (no fractions, no NaN).
  An object with own enumerable properties is an association list in insertion order,
  as \<open>Object.keys\<close> and \<open>for ... in\<close> enumerate it.
\<close>

datatype jsval = JUndefined | JNull | JBool bool | JNum int | JStr string

type_synonym jsobj = "(string \<times> jsval) list"

text \<open>\<open>obj[key]\<close>: reading a missing property gives \<open>undefined\<close>.\<close>

definition obj_get :: "jsobj \<Rightarrow> string \<Rightarrow> jsval" where
  "obj_get obj k = (case map_of obj k of None \<Rightarrow> JUndefined | Some v \<Rightarrow> v)"

text \<open>\<open>obj.hasOwnProperty(key)\<close>.\<close>

definition obj_has :: "jsobj \<Rightarrow> string \<Rightarrow> bool" where
  "obj_has obj k = (k \<in> set (map fst obj))"

text \<open>\<open>obj[key] = v\<close>: an existing key keeps its place, a new key goes last.\<close>

fun obj_set :: "jsobj \<Rightarrow> string \<Rightarrow> jsval \<Rightarrow> jsobj" where
  "obj_set [] k v = [(k, v)]"
| "obj_set ((k', v') # rest) k v =
     (if k' = k then (k, v) # rest else (k', v') # obj_set rest k v)"

text \<open>\<open>delete obj[key]\<close>.\<close>

definition obj_delete :: "jsobj \<Rightarrow> string \<Rightarrow> jsobj" where
  "obj_delete obj k = filter (\<lambda>p. fst p \<noteq> k) obj"

text \<open>Truthiness, as \<open>||\<close> and \<open>if\<close> read a value.\<close>

fun truthy :: "jsval \<Rightarrow> bool" where
  "truthy JUndefined = False"
| "truthy JNull = False"
| "truthy (JBool b) = b"
| "truthy (JNum n) = (n \<noteq> 0)"
| "truthy (JStr s) = (s \<noteq> [])"

section \<open>32-bit integer operators\<close>

text \<open>
  JavaScript's bitwise operators convert their operands to 32-bit integers: \<open>^\<close> and
  \<open>&\<close> give a signed 32-bit result, \<open>>>>\<close> an unsigned one.
\<close>

definition js_xor :: "int \<Rightarrow> int \<Rightarrow> int" where
  "js_xor a b = sint ((word_of_int a :: 32 word) XOR word_of_int b)"

definition js_and :: "int \<Rightarrow> int \<Rightarrow> int" where
  "js_and a b = sint ((word_of_int a :: 32 word) AND word_of_int b)"

definition js_ushr :: "int \<Rightarrow> nat \<Rightarrow> int" where
  "js_ushr a n = uint (drop_bit n (word_of_int a :: 32 word))"

section \<open>NGN.DATA.util: the checksum\<close>

text \<open>
  \<open>makeCRCTable\<close>: for \<open>n\<close> from 0 to 255, eight rounds of
  \<open>c = (c & 1) ? (0xEDB88320 ^ (c >>> 1)) : (c >>> 1)\<close>.
\<close>

fun crc_rounds :: "nat \<Rightarrow> int \<Rightarrow> int" where
  "crc_rounds 0 c = c"
| "crc_rounds (Suc k) c =
     crc_rounds k (if js_and c 1 \<noteq> 0 then js_xor 0xEDB88320 (js_ushr c 1) else js_ushr c 1)"

definition makeCRCTable :: "int list" where
  "makeCRCTable = map (\<lambda>n. crc_rounds 8 (int n)) [0..<256]"

text \<open>
  \<open>crcTable[i]\<close>: an index outside the array reads \<open>undefined\<close>, which \<open>^\<close>
  converts to 0.
\<close>

definition table_at :: "int list \<Rightarrow> int \<Rightarrow> int" where
  "table_at t i = (if 0 \<le> i \<and> nat i < length t then t ! nat i else 0)"

text \<open>
  The loop of \<open>checksum\<close> over the code units of the string:
  \<open>crc = (crc >>> 8) ^ crcTable[(crc ^ str.charCodeAt(i)) & 0xFF]\<close>.
\<close>

fun crc_loop :: "int list \<Rightarrow> int \<Rightarrow> int list \<Rightarrow> int" where
  "crc_loop t crc [] = crc"
| "crc_loop t crc (u # us) =
     crc_loop t (js_xor (js_ushr crc 8) (table_at t (js_and (js_xor crc u) 0xFF))) us"

text \<open>
  \<open>checksum\<close> with the cached table as explicit state: the cache is \<open>null\<close> until the
  first call builds the table. The input is the list of code units of the string; the
  result is \<open>(crc ^ (-1)) >>> 0\<close> together with the cache after the call.
\<close>

definition checksum_cached :: "int list option \<Rightarrow> int list \<Rightarrow> int \<times> int list option" where
  "checksum_cached cache units =
     (let crcTable = (case cache of None \<Rightarrow> makeCRCTable | Some t \<Rightarrow> t);
          crc = js_xor 0 (-1);
          crc' = crc_loop crcTable crc units
      in (js_ushr (js_xor crc' (-1)) 0, Some crcTable))"

text \<open>The code units of a string (\<open>charCodeAt\<close>).\<close>

definition charCodes :: "string \<Rightarrow> int list" where
  "charCodes s = map (\<lambda>c. int (of_char c)) s"

text \<open>The checksum of a string, once the table is cached.\<close>

definition checksum :: "string \<Rightarrow> int" where
  "checksum s = fst (checksum_cached (Some makeCRCTable) (charCodes s))"

section \<open>Strings and JSON text\<close>

text \<open>\<open>String.prototype.toLowerCase\<close> on 8-bit code units (ASCII and Latin-1 capitals).\<close>

definition lower_char :: "char \<Rightarrow> char" where
  "lower_char c =
     (let n = (of_char c :: nat)
      in if (65 \<le> n \<and> n \<le> 90) \<or> (192 \<le> n \<and> n \<le> 214) \<or> (216 \<le> n \<and> n \<le> 222)
         then char_of (n + 32) else c)"

definition toLowerCase :: "string \<Rightarrow> string" where
  "toLowerCase s = map lower_char s"

text \<open>\<open>String.prototype.trim\<close>: white space among the 8-bit code units.\<close>

definition is_space :: "char \<Rightarrow> bool" where
  "is_space c = ((of_char c :: nat) \<in> {9, 10, 11, 12, 13, 32, 160})"

definition trim :: "string \<Rightarrow> string" where
  "trim s = rev (dropWhile is_space (rev (dropWhile is_space s)))"

text \<open>Decimal digits of a number, as \<open>Number.prototype.toString\<close> prints an integer.\<close>

fun nat_digits :: "nat \<Rightarrow> string" where
  "nat_digits n =
     (if n < 10 then [char_of (48 + n)]
      else nat_digits (n div 10) @ [char_of (48 + n mod 10)])"

declare nat_digits.simps [simp del]

definition int_string :: "int \<Rightarrow> string" where
  "int_string i = (if i < 0 then CHR ''-'' # nat_digits (nat (- i)) else nat_digits (nat i))"

text \<open>\<open>ToString\<close> of a primitive value.\<close>

fun to_string :: "jsval \<Rightarrow> string" where
  "to_string JUndefined = ''undefined''"
| "to_string JNull = ''null''"
| "to_string (JBool b) = (if b then ''true'' else ''false'')"
| "to_string (JNum n) = int_string n"
| "to_string (JStr s) = s"

text \<open>
  \<open>JSON.stringify\<close> of a string: the quote and the backslash are escaped, the control
  characters are written with their short or \<open>\u00XX\<close> escapes.
\<close>

definition hex_digit :: "nat \<Rightarrow> char" where
  "hex_digit n = (if n < 10 then char_of (48 + n) else char_of (87 + n))"

definition json_char :: "char \<Rightarrow> string" where
  "json_char c =
     (let n = (of_char c :: nat)
      in if n = 34 then [CHR 0x5C, CHR 0x22]
         else if n = 92 then [CHR 0x5C, CHR 0x5C]
         else if n = 8 then [CHR 0x5C, CHR ''b'']
         else if n = 9 then [CHR 0x5C, CHR ''t'']
         else if n = 10 then [CHR 0x5C, CHR ''n'']
         else if n = 12 then [CHR 0x5C, CHR ''f'']
         else if n = 13 then [CHR 0x5C, CHR ''r'']
         else if n < 32 then [CHR 0x5C, CHR ''u'', CHR ''0'', CHR ''0'',
                              hex_digit (n div 16), hex_digit (n mod 16)]
         else [c])"

definition json_string :: "string \<Rightarrow> string" where
  "json_string s = CHR 0x22 # concat (map json_char s) @ [CHR 0x22]"

text \<open>
  \<open>JSON.stringify\<close> of a property: a property whose value is \<open>undefined\<close> is left
  out of the text.
\<close>

fun json_member :: "string \<times> jsval \<Rightarrow> string option" where
  "json_member (k, JUndefined) = None"
| "json_member (k, v) =
     Some (json_string k @ '':'' @ (case v of JStr s \<Rightarrow> json_string s | _ \<Rightarrow> to_string v))"

fun join_comma :: "string list \<Rightarrow> string" where
  "join_comma [] = []"
| "join_comma [x] = x"
| "join_comma (x # y # ys) = x @ '','' @ join_comma (y # ys)"

definition JSON_stringify :: "jsobj \<Rightarrow> string" where
  "JSON_stringify obj = ''{'' @ join_comma (List.map_filter json_member obj) @ ''}''"

section \<open>Errors\<close>

text \<open>
  What the code throws: a \<open>TypeError\<close> of the runtime (a property read on
  \<open>undefined\<close>, a call of something that is no function), and the three \<open>Error\<close>s
  the Store throws itself.
\<close>

datatype error =
    TypeError
  | CannotAddNonObject
  | DuplicateRecord
  | RecordNotFound

section \<open>NGN.DATA.Model\<close>

text \<open>
  An entry of a model's changelog. In the embedding every entry is an \<open>update\<close> entry
  \<open>{action: 'update', field, old, new}\<close> written by a field's setter: \<open>create\<close> and
  \<open>delete\<close> entries come from \<open>addField\<close>, \<open>removeField\<close> and the relationship
  methods called on a live record, which change the schema object shared by all records of
  a model and are outside the embedding, as are virtual fields, relationship fields and
  validators (validation writes \<open>invalidDataAttributes\<close> and emits events, and reads
  nothing back into the data).
\<close>

record change =
  c_field :: string
  c_old :: jsval
  c_new :: jsval

text \<open>
  A model instance. \<open>ref\<close> is the identity of the object (what \<open>===\<close> and
  \<open>Array.indexOf\<close> compare); \<open>datafields\<close> is the getter of that name, \<open>Object.keys(this.fields)\<close>; \<open>raw\<close>,
  \<open>oid\<close>, \<open>benchmark\<close> and \<open>changelog\<close> are the private properties of the same names.
  Events are delivered to handlers outside the embedding; \<open>emit\<close> calls are not recorded.
\<close>

record model =
  ref :: nat
  idAttribute :: string
  datafields :: "string list"
  autoid :: bool
  dataMap :: "(string \<times> string) list option"
  raw :: jsobj
  oid :: jsval
  benchmark :: jsval
  changelog :: "change list"

text \<open>
  The configuration a model is made from: \<open>idAttribute\<close>, \<open>fields\<close> (each declared field
  with its configured default, \<open>undefined\<close> when it has none), \<open>autoid\<close> and \<open>dataMap\<close>;
  \<open>None\<close> is a key the configuration leaves out.
\<close>

record model_cfg =
  cfg_idAttribute :: "string option"
  cfg_fields :: "(string \<times> jsval) list option"
  cfg_autoid :: "bool option"
  cfg_dataMap :: "(string \<times> string) list option"

text \<open>
  The constructor's loop \<open>Object.keys(this.fields).forEach(field => addField(field, true))\<close>
  over the declared fields, on the state \<open>(raw, oid, number of GUIDs drawn)\<close>. A field
  whose lower-cased name is \<open>id\<close> gets no entry in \<open>raw\<close>; for it an \<open>autoid\<close> model
  with a \<open>null\<close> id draws a GUID. Any other field gets its default
  (\<open>default || null\<close>), or a GUID when it is the \<open>idAttribute\<close> of an \<open>autoid\<close> model.
  \<open>g n\<close> is the \<open>n\<close>-th GUID that \<open>NGN.DATA.util.GUID()\<close> returns.
\<close>

fun addFields :: "string \<Rightarrow> bool \<Rightarrow> (nat \<Rightarrow> string) \<Rightarrow> (string \<times> jsval) list
    \<Rightarrow> jsobj \<times> jsval \<times> nat \<Rightarrow> jsobj \<times> jsval \<times> nat" where
  "addFields ida au g [] st = st"
| "addFields ida au g ((f, d) # fs) (rw, oi, n) =
     (if toLowerCase f \<noteq> ''id'' then
        (if f = ida \<and> au then addFields ida au g fs (obj_set rw f (JStr (g n)), oi, Suc n)
         else addFields ida au g fs (obj_set rw f (if truthy d then d else JNull), oi, n))
      else if oi = JNull \<and> au then addFields ida au g fs (rw, JStr (g n), Suc n)
      else addFields ida au g fs (rw, oi, n))"

text \<open>
  The declared fields after the constructor's \<open>id\<close> check: \<open>config.fields\<close>, or the default
  \<open>{id: ...}\<close>; an \<open>id\<close> field is appended when none is declared.
\<close>

definition declared_fields :: "model_cfg \<Rightarrow> (string \<times> jsval) list" where
  "declared_fields cfg =
     (case cfg_fields cfg of
        None \<Rightarrow> [(''id'', JNull)]
      | Some fs \<Rightarrow> if obj_has fs ''id'' then fs else fs @ [(''id'', JNull)])"

text \<open>
  \<open>new Model(config)\<close>: \<open>r\<close> is the identity of the new object. \<open>idAttribute\<close> is
  \<open>config.idAttribute || 'id'\<close>, \<open>autoid\<close> is \<open>coalesce(config.autoid, false)\<close>. \<open>oid\<close> starts
  as \<open>null\<close> (\<open>config[this.idAttribute]\<close> is read before \<open>idAttribute\<close> is defined),
  \<open>benchmark\<close> as \<open>null\<close> and the changelog empty.
\<close>

definition id_attribute :: "model_cfg \<Rightarrow> string" where
  "id_attribute cfg = (case cfg_idAttribute cfg of None \<Rightarrow> ''id'' | Some a \<Rightarrow> if a = [] then ''id'' else a)"

definition auto_id :: "model_cfg \<Rightarrow> bool" where
  "auto_id cfg = (case cfg_autoid cfg of None \<Rightarrow> False | Some b \<Rightarrow> b)"

definition new_Model :: "model_cfg \<Rightarrow> nat \<Rightarrow> (nat \<Rightarrow> string) \<Rightarrow> model" where
  "new_Model cfg r g =
     (let st = addFields (id_attribute cfg) (auto_id cfg) g (declared_fields cfg) ([], JNull, 0)
      in \<lparr> ref = r, idAttribute = id_attribute cfg, datafields = map fst (declared_fields cfg),
           autoid = auto_id cfg, dataMap = cfg_dataMap cfg, raw = fst st, oid = fst (snd st),
           benchmark = JNull, changelog = [] \<rparr>)"

text \<open>
  \<open>this[name]\<close> on a model: a field installed by \<open>addField\<close> reads \<open>raw\<close>, \<open>id\<close> reads
  \<open>oid\<close>; names of the model's own machinery are not asked for.
\<close>

definition model_get :: "model \<Rightarrow> string \<Rightarrow> jsval" where
  "model_get m k =
     (if obj_has (raw m) k then obj_get (raw m) k
      else if k = ''id'' then oid m else JUndefined)"

text \<open>\<open>record.hasOwnProperty(name)\<close>: the accessors that \<open>addField\<close> installed.\<close>

definition has_own :: "model \<Rightarrow> string \<Rightarrow> bool" where
  "has_own m k = obj_has (raw m) k"

text \<open>\<open>/^[a-z0-9 ]$/.test(key.substr(0, 1))\<close>.\<close>

definition key_ok :: "string \<Rightarrow> bool" where
  "key_ok k =
     (case k of
        [] \<Rightarrow> False
      | c # _ \<Rightarrow> (let n = (of_char c :: nat)
                  in (97 \<le> n \<and> n \<le> 122) \<or> (48 \<le> n \<and> n \<le> 57) \<or> n = 32))"

text \<open>
  \<open>serialize()\<close>, the loop \<open>for (let key in this.raw)\<close> building \<open>rtn\<close>. A key that is a
  declared field is renamed to \<open>idAttribute\<close> when it is \<open>id\<close>; it is copied when \<open>raw\<close>
  owns it and its first character passes the test. Otherwise the second disjunct runs:
  when \<open>raw[key]\<close> is not \<open>undefined\<close> it reads \<open>raw.enumerableProperties.indexOf\<close>,
  and \<open>raw.enumerableProperties\<close> is \<open>undefined\<close>, so a \<open>TypeError\<close> is thrown.
  (\<open>raw.nonEnumerableProperties\<close> is the empty string that the loop itself stores; no
  declared field has that name.)
\<close>

fun serialize_loop :: "model \<Rightarrow> string list \<Rightarrow> jsobj \<Rightarrow> error + jsobj" where
  "serialize_loop m [] rtn = Inr rtn"
| "serialize_loop m (k # ks) rtn =
     (if k \<in> set (datafields m) then
        (let key = (if k = ''id'' then idAttribute m else k)
         in if obj_has (raw m) key \<and> key_ok key
            then serialize_loop m ks (obj_set rtn key (obj_get (raw m) key))
            else if obj_get (raw m) key \<noteq> JUndefined then Inl TypeError
            else serialize_loop m ks rtn)
      else serialize_loop m ks rtn)"

definition serialize :: "model \<Rightarrow> error + jsobj" where
  "serialize m = serialize_loop m (map fst (raw m)) []"

text \<open>
  The renaming of the \<open>data\<close> getter:
  \<open>Object.keys(this.dataMap).forEach(key => { if (d.hasOwnProperty(key)) { d[dataMap[key]] = d[key]; delete d[key] } })\<close>.
\<close>

fun apply_map :: "(string \<times> string) list \<Rightarrow> jsobj \<Rightarrow> jsobj" where
  "apply_map [] d = d"
| "apply_map ((k, k') # rest) d =
     apply_map rest (if obj_has d k then obj_delete (obj_set d k' (obj_get d k)) k else d)"

text \<open>The getter \<open>data\<close>.\<close>

definition model_data :: "model \<Rightarrow> error + jsobj" where
  "model_data m =
     (case serialize m of
        Inl e \<Rightarrow> Inl e
      | Inr d \<Rightarrow>
          (let d1 = (if \<not> obj_has d (idAttribute m) \<and> autoid m
                     then obj_set d (idAttribute m) (model_get m (idAttribute m)) else d)
           in Inr (case dataMap m of None \<Rightarrow> d1 | Some dm \<Rightarrow> apply_map dm d1)))"

text \<open>The getter \<open>checksum\<close>: \<open>NGN.DATA.util.checksum(JSON.stringify(this.data))\<close>.\<close>

definition model_checksum :: "model \<Rightarrow> error + int" where
  "model_checksum m =
     (case model_data m of Inl e \<Rightarrow> Inl e | Inr d \<Rightarrow> Inr (checksum (JSON_stringify d)))"

text \<open>The getter \<open>modified\<close>: \<open>this.checksum !== this.benchmark\<close>.\<close>

definition modified :: "model \<Rightarrow> error + bool" where
  "modified m =
     (case model_checksum m of Inl e \<Rightarrow> Inl e | Inr c \<Rightarrow> Inr (JNum c \<noteq> benchmark m))"

text \<open>\<open>setUnmodified()\<close>: \<open>this.benchmark = this.checksum; this.changelog = []\<close>.\<close>

definition setUnmodified :: "model \<Rightarrow> error + model" where
  "setUnmodified m =
     (case model_checksum m of
        Inl e \<Rightarrow> Inl e
      | Inr c \<Rightarrow> Inr (m\<lparr>benchmark := JNum c, changelog := []\<rparr>))"

text \<open>
  The setter that \<open>addField\<close> installs for \<open>field\<close>: it stores the value in \<open>raw\<close> and
  pushes the \<open>update\<close> entry on the changelog (then emits \<open>field.update\<close> and validates).
\<close>

definition field_set :: "model \<Rightarrow> string \<Rightarrow> jsval \<Rightarrow> model" where
  "field_set m field v =
     m\<lparr> raw := obj_set (raw m) field v,
        changelog := changelog m @ [\<lparr> c_field = field, c_old = obj_get (raw m) field, c_new = v \<rparr>] \<rparr>"

text \<open>
  The getter \<open>history\<close>: \<open>return this.changelog.reverse()\<close>. \<open>Array.prototype.reverse\<close>
  reverses the array in place and returns it, so the getter returns the reversed
  changelog and leaves the model's changelog reversed.
\<close>

definition history :: "model \<Rightarrow> change list \<times> model" where
  "history m = (rev (changelog m), m\<lparr>changelog := rev (changelog m)\<rparr>)"

text \<open>
  \<open>xs.splice(start, deleteCount)\<close>: the removed elements and the array that is left. A
  negative \<open>start\<close> counts from the end, and both arguments are clamped to the array.
\<close>

definition js_splice :: "'a list \<Rightarrow> int \<Rightarrow> int \<Rightarrow> 'a list \<times> 'a list" where
  "js_splice xs start cnt =
     (let len = int (length xs);
          s = (if start < 0 then max (len + start) 0 else min start len);
          d = min (max cnt 0) (len - s)
      in (take (nat d) (drop (nat s) xs), take (nat s) xs @ drop (nat (s + d)) xs))"

text \<open>
  \<open>undo(back)\<close>: \<open>back = back || 1\<close>, the last \<open>back\<close> entries are spliced off the
  changelog and, newest first, each \<open>update\<close> is reversed by the assignment
  \<open>me[change.field] = change.old\<close>, which runs the field's setter.
\<close>

definition undo :: "model \<Rightarrow> int option \<Rightarrow> model" where
  "undo m back =
     (let b = (case back of None \<Rightarrow> 1 | Some n \<Rightarrow> if n = 0 then 1 else n);
          sp = js_splice (changelog m) (int (length (changelog m)) - b) b
      in fold (\<lambda>c m'. field_set m' (c_field c) (c_old c)) (rev (fst sp)) (m\<lparr>changelog := snd sp\<rparr>))"

text \<open>The getter \<open>reverseMap\<close>: \<open>rmap[dataMap[attr]] = attr\<close> for each key of the data map.\<close>

fun reverseMap :: "(string \<times> string) list \<Rightarrow> (string \<times> string) list \<Rightarrow> (string \<times> string) list" where
  "reverseMap [] rm = rm"
| "reverseMap ((k, k') # rest) rm =
     reverseMap rest (if k' \<in> set (map fst rm)
                      then map (\<lambda>p. if fst p = k' then (k', k) else p) rm else rm @ [(k', k)])"

text \<open>
  \<open>load(data)\<close>: the keys of \<open>data\<close> are first renamed through the reverse map; then each
  key that is a declared field is written to \<open>raw\<close> when \<open>raw\<close> owns it, or to the id when
  it is the \<open>idAttribute\<close>; other keys are reported and skipped. \<open>setUnmodified\<close> ends it.
\<close>

fun load_keys :: "model \<Rightarrow> jsobj \<Rightarrow> string list \<Rightarrow> model" where
  "load_keys m d [] = m"
| "load_keys m d (k # ks) =
     (if k \<in> set (datafields m) then
        (if obj_has (raw m) k then load_keys (m\<lparr>raw := obj_set (raw m) k (obj_get d k)\<rparr>) d ks
         else if k = idAttribute m then load_keys (m\<lparr>oid := obj_get d k\<rparr>) d ks
         else load_keys m d ks)
      else load_keys m d ks)"

definition model_load :: "model \<Rightarrow> jsobj \<Rightarrow> error + model" where
  "model_load m d =
     (let d' = (case dataMap m of None \<Rightarrow> d
                | Some dm \<Rightarrow> apply_map (reverseMap dm []) d)
      in setUnmodified (load_keys m d' (map fst d')))"

text \<open>
  The loader that \<open>NGN.DATA.Model(cfg)\<close> returns:
  \<open>let model = new Model(cfg); if (data) { model.load(data) }; return model\<close>.
\<close>

definition ModelLoader :: "model_cfg \<Rightarrow> nat \<Rightarrow> (nat \<Rightarrow> string) \<Rightarrow> jsobj option \<Rightarrow> error + model" where
  "ModelLoader cfg r g data =
     (case data of None \<Rightarrow> Inr (new_Model cfg r g)
      | Some d \<Rightarrow> model_load (new_Model cfg r g) d)"

section \<open>NGN.DATA.Store\<close>

text \<open>
  The store. \<open>s_data\<close>, \<open>s_filters\<close>, \<open>s_index\<close>, \<open>s_created\<close>, \<open>s_deleted\<close> and
  \<open>s_loading\<close> are the private properties \<open>_data\<close>, \<open>_filters\<close>, \<open>_index\<close>,
  \<open>_created\<close>, \<open>_deleted\<close> and \<open>_loading\<close>; \<open>s_model\<close> is the configuration the
  store's model constructor was made from. \<open>_created\<close> and \<open>_deleted\<close> hold records by
  reference and are kept as lists of identities. The index maps an indexed field to its
  buckets, each bucket an array \<open>[value, position, position, ...]\<close>.
\<close>

type_synonym bucket = "jsval list"

type_synonym index = "(string \<times> bucket list) list"

record store =
  s_model :: "model_cfg option"
  s_data :: "model list"
  s_filters :: "(model \<Rightarrow> bool) list"
  s_index :: index
  s_created :: "nat list"
  s_deleted :: "nat list"
  s_loading :: bool
  allowDuplicates :: bool
  errorOnDuplicate :: bool

record store_cfg =
  sc_model :: "model_cfg option"
  sc_index :: "string list option"
  sc_allowDuplicates :: "bool option"
  sc_errorOnDuplicate :: "bool option"

text \<open>
  The constructor: \<open>allowDuplicates\<close> is \<open>coalesce(cfg.allowDuplicates, true)\<close>,
  \<open>errorOnDuplicate\<close> is \<open>coalesce(cfg.errorOnDuplicate, cfg.allowDuplicates, true)\<close>, and
  every name of \<open>cfg.index\<close> gets an empty bucket list.
\<close>

fun index_create :: "index \<Rightarrow> string \<Rightarrow> index" where
  "index_create [] f = [(f, [])]"
| "index_create ((f', bs) # rest) f =
     (if f' = f then (f, []) # rest else (f', bs) # index_create rest f)"

definition new_Store :: "store_cfg \<Rightarrow> store" where
  "new_Store cfg =
     \<lparr> s_model = sc_model cfg,
       s_data = [],
       s_filters = [],
       s_index = fold (\<lambda>f ix. index_create ix f) (case sc_index cfg of None \<Rightarrow> [] | Some fs \<Rightarrow> fs) [],
       s_created = [],
       s_deleted = [],
       s_loading = False,
       allowDuplicates = (case sc_allowDuplicates cfg of None \<Rightarrow> True | Some b \<Rightarrow> b),
       errorOnDuplicate =
         (case sc_errorOnDuplicate cfg of
            Some b \<Rightarrow> b
          | None \<Rightarrow> (case sc_allowDuplicates cfg of None \<Rightarrow> True | Some b \<Rightarrow> b)) \<rparr>"





text \<open>
  What \<open>add\<close> works on after its first lines: a model instance, or the plain object
  itself when the store has no model. A plain object is never an element of \<open>_data\<close>.
\<close>

datatype candidate = CModel model | CPlain jsobj

text \<open>\<open>this._data.indexOf(record) >= 0\<close>: the record is one of the stored objects.\<close>

fun stored :: "store \<Rightarrow> candidate \<Rightarrow> bool" where
  "stored s (CModel r) = (ref r \<in> set (map ref (s_data s)))"
| "stored s (CPlain obj) = False"

text \<open>\<open>record.checksum\<close>: the getter of a model, the property of a plain object.\<close>

fun cand_checksum :: "candidate \<Rightarrow> error + jsval" where
  "cand_checksum (CModel r) = (case model_checksum r of Inl e \<Rightarrow> Inl e | Inr c \<Rightarrow> Inr (JNum c))"
| "cand_checksum (CPlain obj) = Inr (obj_get obj ''checksum'')"

text \<open>
  \<open>this._data.filter(rec => rec.checksum === record.checksum)\<close>: both getters run for
  every stored record, and the first that throws ends the scan.
\<close>

fun checksum_matches :: "model list \<Rightarrow> candidate \<Rightarrow> error + model list" where
  "checksum_matches [] r = Inr []"
| "checksum_matches (x # xs) r =
     (case model_checksum x of
        Inl e \<Rightarrow> Inl e
      | Inr cx \<Rightarrow>
          (case cand_checksum r of
             Inl e \<Rightarrow> Inl e
           | Inr cr \<Rightarrow>
               (case checksum_matches xs r of
                  Inl e \<Rightarrow> Inl e
                | Inr ys \<Rightarrow> Inr (if JNum cx = cr then x # ys else ys))))"

text \<open>\<open>isDuplicate(record)\<close>.\<close>

definition isDuplicate :: "store \<Rightarrow> candidate \<Rightarrow> error + bool" where
  "isDuplicate s r =
     (if stored s r then Inr False
      else (case checksum_matches (s_data s) r of
              Inl e \<Rightarrow> Inl e
            | Inr ys \<Rightarrow> Inr (length ys > 0)))"

text \<open>\<open>bucket[0]\<close>: \<open>undefined\<close> for an empty bucket.\<close>

definition bucket_head :: "bucket \<Rightarrow> jsval" where
  "bucket_head b = (case b of [] \<Rightarrow> JUndefined | v # _ \<Rightarrow> v)"

text \<open>
  \<open>applyIndices(record, number)\<close>, for one indexed field: the position is pushed on the
  first bucket whose head is the record's value, or a new bucket \<open>[value, number]\<close> is
  pushed.
\<close>

fun bucket_add :: "bucket list \<Rightarrow> jsval \<Rightarrow> nat \<Rightarrow> bucket list" where
  "bucket_add [] v n = [[v, JNum (int n)]]"
| "bucket_add (b # bs) v n =
     (if bucket_head b = v then (b @ [JNum (int n)]) # bs else b # bucket_add bs v n)"

definition applyIndices :: "index \<Rightarrow> model \<Rightarrow> nat \<Rightarrow> index" where
  "applyIndices ix r n =
     map (\<lambda>(f, bs). if has_own r f then (f, bucket_add bs (model_get r f) n) else (f, bs)) ix"

text \<open>
  \<open>add(data)\<close>. The argument is a model instance, a plain object (also given as JSON
  text) or something that is no object. For a plain object and a store with a model,
  \<open>new this.model(data)\<close> makes the record: \<open>AObject r g obj\<close> carries, with the object,
  the identity \<open>r\<close> the new record gets and the GUIDs \<open>g\<close> its construction draws.
\<close>

datatype add_arg = AEntity model | AObject nat "nat \<Rightarrow> string" jsobj | ANonObject

text \<open>
  The part of \<open>add\<close> from \<open>isDuplicate\<close> on. A duplicate is rejected when
  \<open>allowDuplicates\<close> is false: with an \<open>Error\<close> when \<open>errorOnDuplicate\<close> is set,
  silently (\<open>return\<close>) otherwise. \<open>listen(record)\<close> calls \<open>record.on\<close>, which a plain
  object does not have. The result is what \<open>add\<close> returns or throws, and the store after.
\<close>

definition add_record :: "store \<Rightarrow> candidate \<Rightarrow> (error + model option) \<times> store" where
  "add_record s c =
     (case isDuplicate s c of
        Inl e \<Rightarrow> (Inl e, s)
      | Inr dupe \<Rightarrow>
          if dupe \<and> \<not> allowDuplicates s
          then (if errorOnDuplicate s then (Inl DuplicateRecord, s) else (Inr None, s))
          else (case c of
                  CPlain obj \<Rightarrow> (Inl TypeError, s)
                | CModel r \<Rightarrow>
                    (Inr (Some r),
                     s\<lparr> s_index := applyIndices (s_index s) r (length (s_data s)),
                        s_data := s_data s @ [r],
                        s_created := (if \<not> s_loading s \<and> ref r \<notin> set (s_created s)
                                      then s_created s @ [ref r] else s_created s) \<rparr>)))"

definition add :: "store \<Rightarrow> add_arg \<Rightarrow> (error + model option) \<times> store" where
  "add s a =
     (case a of
        ANonObject \<Rightarrow> (Inl CannotAddNonObject, s)
      | AEntity r \<Rightarrow> add_record s (CModel r)
      | AObject r g obj \<Rightarrow>
          (case s_model s of
             None \<Rightarrow> add_record s (CPlain obj)
           | Some cfg \<Rightarrow>
               (case ModelLoader cfg r g (Some obj) of
                  Inl e \<Rightarrow> (Inl e, s)
                | Inr m \<Rightarrow> add_record s (CModel m))))"




text \<open>
  \<open>unapplyIndices(num)\<close>: for every indexed field, \<open>this._index[field].indexOf(num)\<close>
  looks for the number among the buckets of the field. The elements are arrays, and
  \<open>indexOf\<close> compares with \<open>===\<close>: an array is never equal to a number.
\<close>

definition bucket_is_number :: "bucket \<Rightarrow> int \<Rightarrow> bool" where
  "bucket_is_number b num = False"

fun remove_first :: "('a \<Rightarrow> bool) \<Rightarrow> 'a list \<Rightarrow> 'a list" where
  "remove_first p [] = []"
| "remove_first p (x # xs) = (if p x then xs else x # remove_first p xs)"

definition unapplyIndices :: "index \<Rightarrow> int \<Rightarrow> index" where
  "unapplyIndices ix num = map (\<lambda>(f, bs). (f, remove_first (\<lambda>b. bucket_is_number b num) bs)) ix"

text \<open>
  \<open>remove(data)\<close> for a number: \<open>dataIndex = data\<close>. A negative index throws; the record
  is spliced out of \<open>_data\<close>; when one was removed, \<open>unapplyIndices(dataIndex)\<close> runs, the
  record leaves \<open>_created\<close> or joins \<open>_deleted\<close>, and it is returned; otherwise \<open>null\<close> is.
  (For a record or a plain object \<open>dataIndex\<close> is found by checksum and the same steps
  follow.)
\<close>

definition remove :: "store \<Rightarrow> int \<Rightarrow> (error + model option) \<times> store" where
  "remove s dataIndex =
     (if dataIndex < 0 then (Inl RecordNotFound, s)
      else (case js_splice (s_data s) dataIndex 1 of
              ([], rest) \<Rightarrow> (Inr None, s\<lparr>s_data := rest\<rparr>)
            | (removed # _, rest) \<Rightarrow>
                (Inr (Some removed),
                 s\<lparr> s_data := rest,
                    s_index := unapplyIndices (s_index s) dataIndex,
                    s_created := (if s_loading s then s_created s
                                  else remove_first (\<lambda>i. i = ref removed) (s_created s)),
                    s_deleted := (if s_loading s \<or> ref removed \<in> set (s_created s)
                                     \<or> ref removed \<in> set (s_deleted s)
                                  then s_deleted s else s_deleted s @ [ref removed]) \<rparr>)))"

text \<open>
  \<open>getIndices(field, value)\<close>: \<open>null\<close> when the field has no index. Otherwise the
  buckets that are not empty and whose head is the value are collected; when there is
  exactly one, \<open>indexes[0].shift()\<close> removes its head and the bucket itself is returned.
  The bucket is an element of the index, so the index is left with the shortened bucket.
\<close>

definition bucket_matches :: "jsval \<Rightarrow> bucket \<Rightarrow> bool" where
  "bucket_matches v b = (length b > 0 \<and> bucket_head b = v)"

fun shift_matching :: "jsval \<Rightarrow> bucket list \<Rightarrow> bucket list" where
  "shift_matching v [] = []"
| "shift_matching v (b # bs) =
     (if bucket_matches v b then tl b # bs else b # shift_matching v bs)"

fun index_put :: "index \<Rightarrow> string \<Rightarrow> bucket list \<Rightarrow> index" where
  "index_put [] f bs = [(f, bs)]"
| "index_put ((f', bs') # rest) f bs =
     (if f' = f then (f, bs) # rest else (f', bs') # index_put rest f bs)"

definition getIndices :: "index \<Rightarrow> string \<Rightarrow> jsval \<Rightarrow> bucket option \<times> index" where
  "getIndices ix field v =
     (case map_of ix field of
        None \<Rightarrow> (None, ix)
      | Some bs \<Rightarrow>
          (case filter (bucket_matches v) bs of
             [b] \<Rightarrow> (Some (tl b), index_put ix field (shift_matching v bs))
           | _ \<Rightarrow> (Some [], ix)))"

text \<open>
  \<open>this._data[index]\<close> for an element of a bucket: \<open>undefined\<close> (\<open>None\<close>) outside the
  array. The elements after a bucket's head are the numbers \<open>applyIndices\<close> pushed.
\<close>

definition data_at :: "model list \<Rightarrow> jsval \<Rightarrow> model option" where
  "data_at xs v =
     (case v of
        JNum i \<Rightarrow> if 0 \<le> i \<and> nat i < length xs then Some (xs ! nat i) else None
      | _ \<Rightarrow> None)"

text \<open>
  A query of \<open>find\<close>: a predicate, a position, an id string, a map from fields to
  values, a model instance, or nothing. What \<open>find\<close> returns: \<open>null\<close>, one record, or
  an array, whose elements can be \<open>undefined\<close> where an index position lies outside
  \<open>_data\<close>.
\<close>

datatype query =
    QFunction "model \<Rightarrow> bool"
  | QNumber int
  | QString string
  | QObject jsobj
  | QModel model
  | QNone

datatype found = FNull | FRecord model | FRecords "model option list"

text \<open>
  The object query, first loop: every queried field is looked up with \<open>getIndices\<close>; an
  array (also an empty one) is appended to \<open>match\<close>, \<open>null\<close> puts the field on
  \<open>noindex\<close>. The state is \<open>(match, noindex, index)\<close>.
\<close>

fun query_indices :: "jsobj \<Rightarrow> string list \<Rightarrow> jsval list \<times> string list \<times> index
    \<Rightarrow> jsval list \<times> string list \<times> index" where
  "query_indices q [] st = st"
| "query_indices q (f # fs) (match, noindex, ix) =
     (case getIndices ix f (obj_get q f) of
        (Some b, ix') \<Rightarrow> query_indices q fs (match @ b, noindex, ix')
      | (None, ix') \<Rightarrow> query_indices q fs (match, noindex @ [f], ix'))"

text \<open>
  The last filter of the object query, \<open>query[key] === record[key]\<close> for every queried
  key: reading a property of an \<open>undefined\<close> element throws.
\<close>

fun query_filter :: "jsobj \<Rightarrow> model option list \<Rightarrow> error + model option list" where
  "query_filter q [] = Inr []"
| "query_filter q (None # rs) =
     (if q = [] then (case query_filter q rs of Inl e \<Rightarrow> Inl e | Inr ys \<Rightarrow> Inr (None # ys))
      else Inl TypeError)"
| "query_filter q (Some r # rs) =
     (case query_filter q rs of
        Inl e \<Rightarrow> Inl e
      | Inr ys \<Rightarrow> Inr (if list_all (\<lambda>k. obj_get q k = model_get r k) (map fst q)
                       then Some r # ys else ys))"

text \<open>\<open>indexOf(record)\<close> of the store: the first position with the record's checksum.\<close>

fun find_checksum :: "model list \<Rightarrow> int \<Rightarrow> nat \<Rightarrow> error + int" where
  "find_checksum [] c n = Inr (- 1)"
| "find_checksum (x # xs) c n =
     (case model_checksum x of
        Inl e \<Rightarrow> Inl e
      | Inr cx \<Rightarrow> if cx = c then Inr (int n) else find_checksum xs c (Suc n))"

definition indexOf :: "store \<Rightarrow> model \<Rightarrow> error + int" where
  "indexOf s r =
     (case s_data s of
        [] \<Rightarrow> Inr (- 1)
      | xs \<Rightarrow> (case model_checksum r of Inl e \<Rightarrow> Inl e | Inr c \<Rightarrow> find_checksum xs c 0))"

text \<open>The id of a record as the string query compares it: \<open>(record[record.idAttribute] || '').toString().trim()\<close>.\<close>

definition id_string :: "model \<Rightarrow> string" where
  "id_string r =
     (let v = model_get r (idAttribute r)
      in trim (to_string (if truthy v then v else JStr [])))"

text \<open>
  \<open>find(query)\<close>. An empty store returns an empty array at once. The filters are applied
  to the result at the end, but what \<open>applyFilters\<close> returns is dropped, so they do not
  change the result. The store after the call is returned too: \<open>getIndices\<close> writes the
  index.
\<close>

definition store_find :: "store \<Rightarrow> query \<Rightarrow> (error + found) \<times> store" where
  "store_find s query =
     (if length (s_data s) = 0 then (Inr (FRecords []), s)
      else (case query of
        QFunction p \<Rightarrow> (Inr (FRecords (map Some (filter p (s_data s)))), s)
      | QNumber n \<Rightarrow>
          ((if n < 0 \<or> n \<ge> int (length (s_data s)) then Inr FNull
            else Inr (FRecord (s_data s ! nat n))), s)
      | QString str \<Rightarrow>
          (case getIndices (s_index s) (idAttribute (hd (s_data s))) (JStr (trim str)) of
             (Some (p # ps), ix') \<Rightarrow>
               (Inr (FRecords (map (data_at (s_data s)) (p # ps))), s\<lparr>s_index := ix'\<rparr>)
           | (_, ix') \<Rightarrow>
               (case filter (\<lambda>r. id_string r = trim str) (s_data s) of
                  [] \<Rightarrow> (Inr FNull, s\<lparr>s_index := ix'\<rparr>)
                | r # _ \<Rightarrow> (Inr (FRecord r), s\<lparr>s_index := ix'\<rparr>)))
      | QModel m \<Rightarrow>
          (case indexOf s m of
             Inl e \<Rightarrow> (Inl e, s)
           | Inr i \<Rightarrow> (if i \<ge> 0 then Inr (FRecord m) else Inr FNull, s))
      | QObject q \<Rightarrow>
          (case query_indices q (map fst q) ([], [], s_index s) of
             (match, noindex, ix') \<Rightarrow>
               (let scanned =
                      (if length noindex > 0
                       then map snd (filter (\<lambda>(i, r). JNum (int i) \<notin> set match
                                                \<and> list_all (\<lambda>k. model_get r k = obj_get q k) noindex)
                                      (enumerate 0 (s_data s)))
                       else []);
                    resultSet = map Some scanned @ map (data_at (s_data s)) match
                in (case query_filter q resultSet of
                      Inl e \<Rightarrow> (Inl e, s\<lparr>s_index := ix'\<rparr>)
                    | Inr rs \<Rightarrow> (Inr (FRecords rs), s\<lparr>s_index := ix'\<rparr>))))
      | QNone \<Rightarrow> (Inr (FRecords (map Some (s_data s))), s)))"

text \<open>\<open>clearIndices()\<close> and \<open>reindex()\<close>.\<close>

definition clearIndices :: "index \<Rightarrow> index" where
  "clearIndices ix = map (\<lambda>(f, bs). (f, [])) ix"

fun reindex_loop :: "index \<Rightarrow> model list \<Rightarrow> nat \<Rightarrow> index" where
  "reindex_loop ix [] n = ix"
| "reindex_loop ix (r # rs) n = reindex_loop (applyIndices ix r n) rs (Suc n)"

definition reindex :: "store \<Rightarrow> store" where
  "reindex s = s\<lparr>s_index := reindex_loop (clearIndices (s_index s)) (s_data s) 0\<rparr>"

text \<open>
  \<open>sort(fn)\<close> with an object: each key of the object carries a direction string or a
  comparator function. Two operations of the runtime are taken as given:
  \<open>localeCompare\<close> on strings, and the conversion of a string to a number that \<open><\<close>
  uses when only one operand is a string (\<open>None\<close> is \<open>NaN\<close>).
\<close>

datatype direction = DString string | DFunction "model \<Rightarrow> model \<Rightarrow> int"

record host =
  localeCompare :: "string \<Rightarrow> string \<Rightarrow> int"
  stringToNumber :: "string \<Rightarrow> int option"

text \<open>\<open>a < b\<close> on strings compares code units.\<close>

fun string_less :: "string \<Rightarrow> string \<Rightarrow> bool" where
  "string_less [] [] = False"
| "string_less [] (y # ys) = True"
| "string_less (x # xs) [] = False"
| "string_less (x # xs) (y # ys) =
     ((of_char x :: nat) < of_char y \<or> (x = y \<and> string_less xs ys))"

fun to_number :: "host \<Rightarrow> jsval \<Rightarrow> int option" where
  "to_number h JUndefined = None"
| "to_number h JNull = Some 0"
| "to_number h (JBool b) = Some (if b then 1 else 0)"
| "to_number h (JNum n) = Some n"
| "to_number h (JStr s) = stringToNumber h s"

text \<open>\<open>a < b\<close>: two strings by code units, anything else as numbers; \<open>NaN\<close> is not less.\<close>

definition js_less :: "host \<Rightarrow> jsval \<Rightarrow> jsval \<Rightarrow> bool" where
  "js_less h a b =
     (case (a, b) of
        (JStr x, JStr y) \<Rightarrow> string_less x y
      | _ \<Rightarrow> (case (to_number h a, to_number h b) of
                (Some m, Some n) \<Rightarrow> m < n
              | _ \<Rightarrow> False))"

text \<open>
  The comparator that \<open>sort\<close> builds from the object, over its keys in order. A key that
  one record owns and the other does not decides at once: \<open>1\<close> when \<open>a\<close> owns it,
  \<open>-1\<close> when \<open>b\<close> does. Otherwise, when the values differ, the direction decides:
  \<open>asc\<close> calls \<open>a[key].localeCompare(b[key])\<close> (\<open>typeof a.fields[key]\<close> is a
  non-empty string, so the test before it always passes), which throws when \<open>a[key]\<close> is
  no string; \<open>desc\<close> is \<open>a[key] < b[key] ? 1 : -1\<close>; a function is called; any other
  string gives \<open>0\<close>. Equal values pass on to the next key, and \<open>0\<close> ends the list.
\<close>

fun sort_compare :: "host \<Rightarrow> (string \<times> direction) list \<Rightarrow> model \<Rightarrow> model \<Rightarrow> error + int" where
  "sort_compare h [] a b = Inr 0"
| "sort_compare h ((k, d) # ks) a b =
     (if has_own a k \<and> \<not> has_own b k then Inr 1
      else if \<not> has_own a k \<and> has_own b k then Inr (- 1)
      else if model_get a k \<noteq> model_get b k then
        (case d of
           DFunction f \<Rightarrow> Inr (f a b)
         | DString s \<Rightarrow>
             (if toLowerCase (trim s) = ''asc'' then
                (case model_get a k of
                   JStr x \<Rightarrow> Inr (localeCompare h x (to_string (model_get b k)))
                 | _ \<Rightarrow> Inl TypeError)
              else if toLowerCase (trim s) = ''desc'' then
                Inr (if js_less h (model_get a k) (model_get b k) then 1 else - 1)
              else Inr 0))
      else sort_compare h ks a b)"

text \<open>
  \<open>Array.prototype.sort(compare)\<close> as the stable insertion sort: each element in turn
  moves left past the elements that compare greater than it. \<open>sort_insert\<close> works on the
  sorted prefix in reverse (last element first).
\<close>

fun sort_insert :: "(model \<Rightarrow> model \<Rightarrow> error + int) \<Rightarrow> model \<Rightarrow> model list \<Rightarrow> error + model list" where
  "sort_insert cmp x [] = Inr [x]"
| "sort_insert cmp x (y # ys) =
     (case cmp y x of
        Inl e \<Rightarrow> Inl e
      | Inr order \<Rightarrow>
          if order > 0
          then (case sort_insert cmp x ys of Inl e \<Rightarrow> Inl e | Inr zs \<Rightarrow> Inr (y # zs))
          else Inr (x # y # ys))"

fun sort_loop :: "(model \<Rightarrow> model \<Rightarrow> error + int) \<Rightarrow> model list \<Rightarrow> model list \<Rightarrow> error + model list" where
  "sort_loop cmp [] acc = Inr (rev acc)"
| "sort_loop cmp (x # xs) acc =
     (case sort_insert cmp x acc of Inl e \<Rightarrow> Inl e | Inr acc' \<Rightarrow> sort_loop cmp xs acc')"

definition array_sort :: "(model \<Rightarrow> model \<Rightarrow> error + int) \<Rightarrow> model list \<Rightarrow> error + model list" where
  "array_sort cmp xs = sort_loop cmp xs []"

text \<open>
  \<open>sort(fn)\<close>: a function sorts \<open>this.records\<close>, which is \<open>_data\<close> itself only when the
  store has no filter (otherwise a filtered copy is sorted and dropped); an object sorts
  \<open>_data\<close> with the comparator above. \<open>reindex()\<close> follows.
\<close>

datatype sorter = SFunction "model \<Rightarrow> model \<Rightarrow> int" | SObject "(string \<times> direction) list"

definition store_sort :: "host \<Rightarrow> store \<Rightarrow> sorter \<Rightarrow> error + store" where
  "store_sort h s fn =
     (case fn of
        SFunction f \<Rightarrow>
          (if s_filters s = [] then
             (case array_sort (\<lambda>a b. Inr (f a b)) (s_data s) of
                Inl e \<Rightarrow> Inl e
              | Inr xs \<Rightarrow> Inr (reindex (s\<lparr>s_data := xs\<rparr>)))
           else Inr (reindex s))
      | SObject keys \<Rightarrow>
          (case array_sort (sort_compare h keys) (s_data s) of
             Inl e \<Rightarrow> Inl e
           | Inr xs \<Rightarrow> Inr (reindex (s\<lparr>s_data := xs\<rparr>))))"

section \<open>Example data\<close>

text \<open>
  A model with the fields \<open>name\<close> and \<open>age\<close>, a GUID source, and a record of that
  model as \<open>load\<close> leaves it: \<open>person r d\<close> is the record with identity \<open>r\<close> and
  data \<open>d\<close>.
\<close>

definition guid0 :: "nat \<Rightarrow> string" where
  "guid0 n = ''5c8f6a1e-0b7d-4e2a-9c3f-1d2e3f4a5b6c''"

definition person_cfg :: model_cfg where
  "person_cfg = \<lparr> cfg_idAttribute = None,
                  cfg_fields = Some [(''name'', JNull), (''age'', JNull)],
                  cfg_autoid = None, cfg_dataMap = None \<rparr>"

definition doe :: jsobj where
  "doe = [(''name'', JStr ''Doe''), (''age'', JNum 37)]"

definition person :: "nat \<Rightarrow> jsobj \<Rightarrow> model" where
  "person r d = \<lparr> ref = r, idAttribute = ''id'', datafields = [''name'', ''age'', ''id''],
                  autoid = False, dataMap = None, raw = d, oid = JNull,
                  benchmark = JNum (checksum (JSON_stringify d)), changelog = [] \<rparr>"



text \<open>
  A record of the model that was constructed and never loaded, and a loaded record whose
  name was assigned twice.
\<close>

definition fresh_person :: model where
  "fresh_person = new_Model person_cfg 1 guid0"

definition renamed_twice :: model where
  "renamed_twice =
     field_set (field_set (person 1 doe) ''name'' (JStr ''Roe'')) ''name'' (JStr ''Poe'')"

text \<open>
  A store of the model with indices on \<open>name\<close> and \<open>age\<close>, after
  \<open>add({name: 'Ann', age: 0})\<close> and \<open>add({name: 'Bob', age: 0})\<close>; and the predicate
  \<open>record => record.name === n\<close>.
\<close>

definition ann :: jsobj where
  "ann = [(''name'', JStr ''Ann''), (''age'', JNum 0)]"

definition bob :: jsobj where
  "bob = [(''name'', JStr ''Bob''), (''age'', JNum 0)]"

definition indexed_cfg :: store_cfg where
  "indexed_cfg = \<lparr> sc_model = Some person_cfg, sc_index = Some [''name'', ''age''],
                   sc_allowDuplicates = None, sc_errorOnDuplicate = None \<rparr>"

definition nursery :: store where
  "nursery =
     snd (add (snd (add (new_Store indexed_cfg) (AObject 1 guid0 ann))) (AObject 2 guid0 bob))"

definition named :: "string \<Rightarrow> model \<Rightarrow> bool" where
  "named n r = (model_get r ''name'' = JStr n)"

text \<open>
  The store of Ann and Bob after a lookup of the name \<open>Ann\<close> in its index, and after
  \<open>remove(0)\<close>.
\<close>

definition nursery_read :: store where
  "nursery_read = nursery\<lparr>s_index := [(''name'', [[JNum 0], [JStr ''Bob'', JNum 1]]),
                                        (''age'', [[JNum 0, JNum 0, JNum 1]])]\<rparr>"

definition nursery_less :: store where
  "nursery_less = nursery\<lparr>s_data := [person 2 bob], s_created := [2]\<rparr>"

text \<open>
  A model with the single field \<open>name\<close> and a record of it; a store without a model
  that holds a person and that record; and a host whose \<open>localeCompare\<close> compares code
  units.
\<close>

definition name_cfg :: model_cfg where
  "name_cfg = \<lparr> cfg_idAttribute = None, cfg_fields = Some [(''name'', JNull)],
                cfg_autoid = None, cfg_dataMap = None \<rparr>"

definition nameless :: model where
  "nameless = new_Model name_cfg 2 guid0"

definition host0 :: host where
  "host0 = \<lparr> localeCompare = (\<lambda>x y. if x = y then 0 else if string_less x y then - 1 else 1),
             stringToNumber = (\<lambda>s. None) \<rparr>"

definition mixed :: store where
  "mixed = snd (add (snd (add (new_Store \<lparr> sc_model = None, sc_index = None,
                                           sc_allowDuplicates = None, sc_errorOnDuplicate = None \<rparr>)
                              (AEntity (person 1 doe))))
                (AEntity nameless))"

text \<open>
  Two records agree on a sort key when both own it or both lack it and their values are
  strictly equal: the comparator passes such a key by.
\<close>

definition same_at :: "model \<Rightarrow> model \<Rightarrow> string \<times> direction \<Rightarrow> bool" where
  "same_at a b kd =
     (has_own a (fst kd) = has_own b (fst kd) \<and> model_get a (fst kd) = model_get b (fst kd))"

section \<open>Notions used in the round trip\<close>







section \<open>Properties of the checksum\<close>

lemma js_ushr_range: "0 \<le> js_ushr a n \<and> js_ushr a n < 2 ^ 32"
proof -
  have "uint (drop_bit n (word_of_int a :: 32 word)) < 2 ^ LENGTH(32)"
    by (rule uint_lt2p)
  then show ?thesis by (simp add: js_ushr_def)
qed

text \<open>
  C9. For every input string (any list of code units), \<open>checksum\<close> returns an integer
  in the range from 0 up to, not including, \<open>2 ^ 32\<close>; the result does not depend on
  whether the table was already cached, and the call leaves the table cached, so equal
  inputs give equal values on every call.
\<close>

theorem checksum_range_deterministic:
  "0 \<le> fst (checksum_cached None us)
   \<and> fst (checksum_cached None us) < 2 ^ 32
   \<and> fst (checksum_cached (snd (checksum_cached None us)) us) = fst (checksum_cached None us)
   \<and> snd (checksum_cached (snd (checksum_cached None us)) us) = snd (checksum_cached None us)
   \<and> checksum s = fst (checksum_cached None (charCodes s))"
  using js_ushr_range by (simp add: checksum_cached_def checksum_def Let_def)

section \<open>The example records\<close>

lemma lower_name:
  "toLowerCase ''name'' = ''name''" "toLowerCase ''age'' = ''age''" "toLowerCase ''id'' = ''id''"
  by (simp_all add: toLowerCase_def lower_char_def)

lemma key_ok_name: "key_ok ''name''" "key_ok ''age''"
  by (simp_all add: key_ok_def)

lemma person_data:
  "model_data (person r [(''name'', a), (''age'', b)]) = Inr [(''name'', a), (''age'', b)]"
  by (simp add: model_data_def serialize_def person_def obj_has_def obj_get_def key_ok_name)

lemma person_checksum:
  "model_checksum (person r [(''name'', a), (''age'', b)])
     = Inr (checksum (JSON_stringify [(''name'', a), (''age'', b)]))"
  by (simp add: model_checksum_def person_data)

lemma load_person:
  "ModelLoader person_cfg r g (Some [(''name'', a), (''age'', b)])
     = Inr (person r [(''name'', a), (''age'', b)])"
  apply (simp add: ModelLoader_def new_Model_def id_attribute_def auto_id_def person_cfg_def
      declared_fields_def obj_has_def lower_name model_load_def setUnmodified_def obj_get_def Let_def)
  apply (simp add: model_checksum_def model_data_def serialize_def obj_has_def obj_get_def
      key_ok_name person_def)
  done


section \<open>Duplicate detection\<close>







section \<open>Change tracking and undo\<close>

lemma obj_has_map_of: "obj_has rw f = (map_of rw f \<noteq> None)"
  by (simp add: obj_has_def map_of_eq_None_iff)

lemma obj_set_restore:
  "obj_has rw f \<Longrightarrow> obj_set (obj_set rw f v) f (obj_get rw f) = rw"
  unfolding obj_has_map_of by (induction rw) (auto simp: obj_get_def)

lemma obj_get_set: "obj_get (obj_set rw f v) f = v"
  by (induction rw) (auto simp: obj_get_def)

lemma serialize_loop_changelog [simp]:
  "serialize_loop (m\<lparr>changelog := cl\<rparr>) ks rtn = serialize_loop m ks rtn"
  by (induction ks arbitrary: rtn) (auto simp: Let_def)

lemma model_data_changelog [simp]: "model_data (m\<lparr>changelog := cl\<rparr>) = model_data m"
  by (simp add: model_data_def serialize_def model_get_def Let_def split: sum.splits option.splits)

lemma modified_changelog [simp]: "modified (m\<lparr>changelog := cl\<rparr>) = modified m"
  by (simp add: modified_def model_checksum_def split: sum.splits)

lemma undo_field_set:
  assumes "changelog m = []" and "obj_has (raw m) f"
  shows "undo (field_set m f v) (Some 1)
           = m\<lparr>changelog := [\<lparr> c_field = f, c_old = v, c_new = obj_get (raw m) f \<rparr>]\<rparr>"
  using assms
  by (simp add: undo_def field_set_def js_splice_def obj_set_restore obj_get_set)

text \<open>
  C5, as amended. For every model whose changelog is empty and which is unmodified (its
  checksum is its benchmark, as \<open>load\<close> leaves it), after one assignment of a value
  to a field that \<open>addField\<close> installed, \<open>undo(1)\<close> restores the field (and all of
  \<open>raw\<close>) to what it was, the update entry of the assignment is no longer in the history
  when the value was a new one, and \<open>modified\<close> is false. The changelog is not empty
  afterwards: it holds the update entry that the assignment made by \<open>undo\<close> itself
  recorded.
\<close>

theorem undo_single_update:
  assumes "changelog m = []" and "obj_has (raw m) f" and "modified m = Inr False"
  shows "raw (undo (field_set m f v) (Some 1)) = raw m
         \<and> model_get (undo (field_set m f v) (Some 1)) f = model_get m f
         \<and> changelog (undo (field_set m f v) (Some 1))
             = [\<lparr> c_field = f, c_old = v, c_new = obj_get (raw m) f \<rparr>]
         \<and> (v \<noteq> obj_get (raw m) f \<longrightarrow>
              \<lparr> c_field = f, c_old = obj_get (raw m) f, c_new = v \<rparr>
                \<notin> set (fst (history (undo (field_set m f v) (Some 1)))))
         \<and> modified (undo (field_set m f v) (Some 1)) = Inr False"
  using assms(3) by (simp add: undo_field_set [OF assms(1,2)] model_get_def history_def)

theorem undo_single_update_witness:
  "raw (undo (field_set (person 1 doe) ''name'' (JStr ''Roe'')) (Some 1)) = doe
   \<and> changelog (undo (field_set (person 1 doe) ''name'' (JStr ''Roe'')) (Some 1))
        = [\<lparr> c_field = ''name'', c_old = JStr ''Roe'', c_new = JStr ''Doe'' \<rparr>]
   \<and> modified (undo (field_set (person 1 doe) ''name'' (JStr ''Roe'')) (Some 1)) = Inr False"
proof -
  have a: "changelog (person 1 doe) = []" "obj_has (raw (person 1 doe)) ''name''"
    by (simp_all add: person_def doe_def obj_has_def)
  have b: "modified (person 1 doe) = Inr False"
    by (simp add: modified_def doe_def person_checksum) (simp add: person_def)
  have c: "raw (person 1 doe) = doe" "obj_get doe ''name'' = JStr ''Doe''"
    by (simp_all add: person_def doe_def obj_get_def)
  show ?thesis
    using undo_single_update [OF a b, of "JStr ''Roe''"] c by simp
qed

text \<open>
  A model that was constructed and never loaded has the benchmark \<open>null\<close>: it is
  modified before the assignment and after the undo.
\<close>

lemma fresh_person_eq:
  "fresh_person = \<lparr> ref = 1, idAttribute = ''id'', datafields = [''name'', ''age'', ''id''],
                    autoid = False, dataMap = None, raw = [(''name'', JNull), (''age'', JNull)],
                    oid = JNull, benchmark = JNull, changelog = [] \<rparr>"
  by (simp add: fresh_person_def new_Model_def id_attribute_def auto_id_def person_cfg_def
      declared_fields_def obj_has_def lower_name)

theorem undo_fresh_model_modified:
  "changelog fresh_person = []
   \<and> ''name'' \<in> set (datafields fresh_person)
   \<and> model_get fresh_person ''name'' = JNull
   \<and> model_get (undo (field_set fresh_person ''name'' (JStr ''Doe'')) (Some 1)) ''name'' = JNull
   \<and> modified (undo (field_set fresh_person ''name'' (JStr ''Doe'')) (Some 1)) = Inr True"
proof -
  have a: "changelog fresh_person = []" "obj_has (raw fresh_person) ''name''"
    by (simp_all add: fresh_person_eq obj_has_def)
  have "model_data fresh_person = Inr [(''name'', JNull), (''age'', JNull)]"
    by (simp add: fresh_person_eq model_data_def serialize_def obj_has_def obj_get_def key_ok_name)
  then have "modified fresh_person = Inr True"
    by (simp add: modified_def model_checksum_def) (simp add: fresh_person_eq)
  then show ?thesis
    by (simp add: undo_field_set [OF a]) (simp add: fresh_person_eq model_get_def obj_has_def obj_get_def)
qed

text \<open>
  C8 at a record with two changes. The first access of \<open>history\<close> returns the entries
  newest first; it leaves the changelog reversed, so the second access returns them
  oldest first. \<open>undo(1)\<close> on the untouched record takes back the latest change (the
  name is \<open>Roe\<close> again); after one access of \<open>history\<close> it takes back the oldest
  one instead (the name becomes \<open>Doe\<close>).
\<close>

theorem history_reverses_changelog:
  "fst (history renamed_twice)
     = [\<lparr> c_field = ''name'', c_old = JStr ''Roe'', c_new = JStr ''Poe'' \<rparr>,
        \<lparr> c_field = ''name'', c_old = JStr ''Doe'', c_new = JStr ''Roe'' \<rparr>]
   \<and> fst (history (snd (history renamed_twice)))
     = [\<lparr> c_field = ''name'', c_old = JStr ''Doe'', c_new = JStr ''Roe'' \<rparr>,
        \<lparr> c_field = ''name'', c_old = JStr ''Roe'', c_new = JStr ''Poe'' \<rparr>]
   \<and> model_get (undo renamed_twice (Some 1)) ''name'' = JStr ''Roe''
   \<and> model_get (undo (snd (history renamed_twice)) (Some 1)) ''name'' = JStr ''Doe''"
  by (simp add: renamed_twice_def history_def field_set_def person_def doe_def obj_get_def
      undo_def js_splice_def model_get_def obj_has_def)

section \<open>Indices\<close>

lemma nursery_eq:
  "nursery = \<lparr> s_model = Some person_cfg, s_data = [person 1 ann, person 2 bob], s_filters = [],
               s_index = [(''name'', [[JStr ''Ann'', JNum 0], [JStr ''Bob'', JNum 1]]),
                          (''age'', [[JNum 0, JNum 0, JNum 1]])],
               s_created = [1, 2], s_deleted = [], s_loading = False,
               allowDuplicates = True, errorOnDuplicate = True \<rparr>"
  by (simp add: nursery_def add_def new_Store_def indexed_cfg_def ann_def bob_def load_person
                add_record_def isDuplicate_def applyIndices_def person_checksum)
     (simp add: person_def has_own_def model_get_def obj_has_def obj_get_def bucket_head_def)

lemma map_of_index_put: "map_of (index_put ix f bs) f = Some bs"
  by (induction ix) auto

lemma filter_shift_matching:
  "filter (bucket_matches v) bs = [b] \<Longrightarrow>
   filter (bucket_matches v) (shift_matching v bs)
     = (if bucket_matches v (tl b) then [tl b] else [])"
  by (induction bs) (auto split: if_splits)

text \<open>
  C10, as amended. \<open>getIndices\<close> is not read-only: when exactly one bucket \<open>b\<close> of the
  field's index matches the value, the call returns the bucket without its head (the
  position list) and leaves the index with that bucket shortened in place. A call
  repeated at once returns an empty array unless the shortened bucket matches again,
  that is unless its first position is strictly equal to the value; then the repeated
  call returns the positions after that one.
\<close>

theorem getIndices_shifts_bucket:
  assumes "map_of ix f = Some bs" and "filter (bucket_matches v) bs = [b]"
  shows "fst (getIndices ix f v) = Some (tl b)
         \<and> map_of (snd (getIndices ix f v)) f = Some (shift_matching v bs)
         \<and> (\<not> bucket_matches v (tl b) \<longrightarrow>
              fst (getIndices (snd (getIndices ix f v)) f v) = Some [])
         \<and> (bucket_matches v (tl b) \<longrightarrow>
              fst (getIndices (snd (getIndices ix f v)) f v) = Some (tl (tl b)))"
  using assms
  by (simp add: getIndices_def map_of_index_put filter_shift_matching)

theorem getIndices_shifts_bucket_witness:
  "fst (getIndices (s_index nursery) ''name'' (JStr ''Ann'')) = Some [JNum 0]
   \<and> fst (getIndices (snd (getIndices (s_index nursery) ''name'' (JStr ''Ann'')))
            ''name'' (JStr ''Ann'')) = Some []"
proof -
  have a: "map_of (s_index nursery) ''name''
             = Some [[JStr ''Ann'', JNum 0], [JStr ''Bob'', JNum 1]]"
    by (simp add: nursery_eq)
  have b: "filter (bucket_matches (JStr ''Ann'')) [[JStr ''Ann'', JNum 0], [JStr ''Bob'', JNum 1]]
             = [[JStr ''Ann'', JNum 0]]"
    by (simp add: bucket_matches_def bucket_head_def)
  have c: "\<not> bucket_matches (JStr ''Ann'') (tl [JStr ''Ann'', JNum 0])"
    by (simp add: bucket_matches_def bucket_head_def)
  show ?thesis
    using getIndices_shifts_bucket [OF a b] c by simp
qed

text \<open>
  The two records of age 0 stand at the positions 0 and 1, so the bucket of the value 0
  is \<open>[0, 0, 1]\<close>, the only bucket of the index on \<open>age\<close>. After the first lookup it is
  \<open>[0, 1]\<close> and matches the value 0 again: the repeated lookup returns \<open>[1]\<close>.
\<close>

theorem getIndices_repeat_not_empty:
  "length (filter (bucket_matches (JNum 0)) (the (map_of (s_index nursery) ''age''))) = 1
   \<and> fst (getIndices (s_index nursery) ''age'' (JNum 0)) = Some [JNum 0, JNum 1]
   \<and> fst (getIndices (snd (getIndices (s_index nursery) ''age'' (JNum 0))) ''age'' (JNum 0))
       = Some [JNum 1]"
  by (simp add: nursery_eq getIndices_def bucket_matches_def bucket_head_def)

section \<open>Queries through the index\<close>

lemma store_find_indexed:
  assumes "s_data s \<noteq> []"
    and "map fst q = ks"
    and "query_indices q ks ([], [], s_index s) = (match, [], ix')"
  shows "store_find s (QObject q) =
           (case query_filter q (map (data_at (s_data s)) match) of
              Inl e \<Rightarrow> (Inl e, s\<lparr>s_index := ix'\<rparr>)
            | Inr rs \<Rightarrow> (Inr (FRecords rs), s\<lparr>s_index := ix'\<rparr>))"
  using assms by (simp add: store_find_def)

lemma store_find_function:
  "s_data s \<noteq> [] \<Longrightarrow> store_find s (QFunction p) = (Inr (FRecords (map Some (filter p (s_data s)))), s)"
  by (simp add: store_find_def)

lemma store_find_number:
  "0 \<le> n \<Longrightarrow> nat n < length (s_data s) \<Longrightarrow> store_find s (QNumber n) = (Inr (FRecord (s_data s ! nat n)), s)"
  by (auto simp: store_find_def)

lemma nursery_index: 
  "s_index nursery = [(''name'', [[JStr ''Ann'', JNum 0], [JStr ''Bob'', JNum 1]]),
                          (''age'', [[JNum 0, JNum 0, JNum 1]])]"
  "s_data nursery = [person 1 ann, person 2 bob]"
  by (simp_all add: nursery_eq)

lemma person_name: "model_get (person r ((''name'', v) # rest)) ''name'' = v"
  by (simp add: model_get_def person_def obj_has_def obj_get_def)

lemma ann_indices:
  "query_indices [(''name'', JStr ''Ann'')] [''name''] ([], [], s_index nursery)
     = ([JNum 0], [], [(''name'', [[JNum 0], [JStr ''Bob'', JNum 1]]),
                       (''age'', [[JNum 0, JNum 0, JNum 1]])])"
  by (simp add: nursery_index getIndices_def bucket_matches_def bucket_head_def obj_get_def)

lemma ann_indices_again:
  "query_indices [(''name'', JStr ''Ann'')] [''name'']
      ([], [], [(''name'', [[JNum 0], [JStr ''Bob'', JNum 1]]), (''age'', [[JNum 0, JNum 0, JNum 1]])])
     = ([], [], [(''name'', [[JNum 0], [JStr ''Bob'', JNum 1]]),
                 (''age'', [[JNum 0, JNum 0, JNum 1]])])"
  by (simp add: getIndices_def bucket_matches_def bucket_head_def obj_get_def)

lemma find_ann_first:
  "store_find nursery (QObject [(''name'', JStr ''Ann'')])
     = (Inr (FRecords [Some (person 1 ann)]),
        nursery\<lparr>s_index := [(''name'', [[JNum 0], [JStr ''Bob'', JNum 1]]),
                              (''age'', [[JNum 0, JNum 0, JNum 1]])]\<rparr>)"
proof -
  have "s_data nursery \<noteq> []" by (simp add: nursery_index)
  moreover have "map fst [(''name'', JStr ''Ann'')] = [''name'']" by simp
  ultimately have "store_find nursery (QObject [(''name'', JStr ''Ann'')]) =
           (case query_filter [(''name'', JStr ''Ann'')] (map (data_at (s_data nursery)) [JNum 0]) of
              Inl e \<Rightarrow> (Inl e, nursery\<lparr>s_index := [(''name'', [[JNum 0], [JStr ''Bob'', JNum 1]]),
                              (''age'', [[JNum 0, JNum 0, JNum 1]])]\<rparr>)
            | Inr rs \<Rightarrow> (Inr (FRecords rs), nursery\<lparr>s_index := [(''name'', [[JNum 0], [JStr ''Bob'', JNum 1]]),
                              (''age'', [[JNum 0, JNum 0, JNum 1]])]\<rparr>))"
    using ann_indices by (rule store_find_indexed)
  then show ?thesis
    by (simp add: nursery_index data_at_def ann_def person_name obj_get_def)
qed


lemma nursery_read_data: "s_data nursery_read = [person 1 ann, person 2 bob]"
  "s_index nursery_read = [(''name'', [[JNum 0], [JStr ''Bob'', JNum 1]]),
                              (''age'', [[JNum 0, JNum 0, JNum 1]])]"
  by (simp_all add: nursery_read_def nursery_index)

lemma find_ann_second:
  "store_find nursery_read (QObject [(''name'', JStr ''Ann'')]) = (Inr (FRecords []), nursery_read)"
proof -
  have "s_data nursery_read \<noteq> []" by (simp add: nursery_read_data)
  moreover have "map fst [(''name'', JStr ''Ann'')] = [''name'']" by simp
  moreover have "query_indices [(''name'', JStr ''Ann'')] [''name''] ([], [], s_index nursery_read)
     = ([], [], s_index nursery_read)"
    using ann_indices_again by (simp add: nursery_read_data)
  ultimately have "store_find nursery_read (QObject [(''name'', JStr ''Ann'')]) =
           (case query_filter [(''name'', JStr ''Ann'')] (map (data_at (s_data nursery_read)) []) of
              Inl e \<Rightarrow> (Inl e, nursery_read\<lparr>s_index := s_index nursery_read\<rparr>)
            | Inr rs \<Rightarrow> (Inr (FRecords rs), nursery_read\<lparr>s_index := s_index nursery_read\<rparr>))"
    by (rule store_find_indexed)
  then show ?thesis by simp
qed

lemma find_ann_scan:
  "store_find nursery_read (QFunction (named ''Ann'')) = (Inr (FRecords [Some (person 1 ann)]), nursery_read)"
proof -
  have "s_data nursery_read \<noteq> []" by (simp add: nursery_read_data)
  then have "store_find nursery_read (QFunction (named ''Ann''))
      = (Inr (FRecords (map Some (filter (named ''Ann'') (s_data nursery_read)))), nursery_read)"
    by (rule store_find_function)
  then show ?thesis
    by (simp add: nursery_read_data named_def ann_def bob_def person_name)
qed

text \<open>
  C3 at the store of Ann and Bob, with its index on \<open>name\<close>. The first
  \<open>find({name: 'Ann'})\<close> returns Ann's record. The lookup has taken the value off the
  bucket, so the same query repeated returns an empty array, while the linear scan
  \<open>find(record => record.name === 'Ann')\<close> on the same store still returns the record.
\<close>

theorem find_indexed_twice:
  "fst (store_find nursery (QObject [(''name'', JStr ''Ann'')]))
     = Inr (FRecords [Some (person 1 ann)])
   \<and> fst (store_find (snd (store_find nursery (QObject [(''name'', JStr ''Ann'')])))
            (QObject [(''name'', JStr ''Ann'')])) = Inr (FRecords [])
   \<and> fst (store_find (snd (store_find nursery (QObject [(''name'', JStr ''Ann'')])))
            (QFunction (named ''Ann''))) = Inr (FRecords [Some (person 1 ann)])"
  by (simp add: find_ann_first nursery_read_def [symmetric] find_ann_second find_ann_scan)

lemma nursery_less_data: "s_data nursery_less = [person 2 bob]"
  "s_index nursery_less = [(''name'', [[JStr ''Ann'', JNum 0], [JStr ''Bob'', JNum 1]]),
                          (''age'', [[JNum 0, JNum 0, JNum 1]])]"
  by (simp_all add: nursery_less_def nursery_index)

lemma unapplyIndices_id: "unapplyIndices ix num = ix"
proof -
  have "\<And>bs. remove_first (\<lambda>b. bucket_is_number b num) bs = bs"
  proof -
    fix bs :: "bucket list"
    show "remove_first (\<lambda>b. bucket_is_number b num) bs = bs"
      by (induction bs) (simp_all add: bucket_is_number_def)
  qed
  then show ?thesis by (simp add: unapplyIndices_def)
qed

lemma splice_first: "js_splice (x # xs) 0 1 = ([x], xs)"
  by (simp add: js_splice_def)

lemma remove_ann: "remove nursery 0 = (Inr (Some (person 1 ann)), nursery_less)"
  by (simp add: remove_def nursery_eq splice_first unapplyIndices_id nursery_less_def)
     (simp add: person_def)

lemma bob_indices:
  "query_indices [(''name'', JStr ''Bob'')] [''name''] ([], [], s_index nursery_less)
     = ([JNum 1], [], [(''name'', [[JStr ''Ann'', JNum 0], [JNum 1]]),
                       (''age'', [[JNum 0, JNum 0, JNum 1]])])"
  by (simp add: nursery_less_data getIndices_def bucket_matches_def bucket_head_def obj_get_def)

lemma find_bob_indexed:
  "fst (store_find nursery_less (QObject [(''name'', JStr ''Bob'')])) = Inl TypeError"
proof -
  have "s_data nursery_less \<noteq> []" by (simp add: nursery_less_data)
  moreover have "map fst [(''name'', JStr ''Bob'')] = [''name'']" by simp
  ultimately have "store_find nursery_less (QObject [(''name'', JStr ''Bob'')]) =
           (case query_filter [(''name'', JStr ''Bob'')] (map (data_at (s_data nursery_less)) [JNum 1]) of
              Inl e \<Rightarrow> (Inl e, nursery_less\<lparr>s_index := [(''name'', [[JStr ''Ann'', JNum 0], [JNum 1]]),
                       (''age'', [[JNum 0, JNum 0, JNum 1]])]\<rparr>)
            | Inr rs \<Rightarrow> (Inr (FRecords rs), nursery_less\<lparr>s_index := [(''name'', [[JStr ''Ann'', JNum 0], [JNum 1]]),
                       (''age'', [[JNum 0, JNum 0, JNum 1]])]\<rparr>))"
    using bob_indices by (rule store_find_indexed)
  then show ?thesis
    by (simp add: nursery_less_data data_at_def)
qed

lemma find_bob_scan:
  "fst (store_find nursery_less (QFunction (named ''Bob''))) = Inr (FRecords [Some (person 2 bob)])"
proof -
  have "s_data nursery_less \<noteq> []" by (simp add: nursery_less_data)
  then have "store_find nursery_less (QFunction (named ''Bob''))
      = (Inr (FRecords (map Some (filter (named ''Bob'') (s_data nursery_less)))), nursery_less)"
    by (rule store_find_function)
  then show ?thesis
    by (simp add: nursery_less_data named_def bob_def person_name)
qed

lemma find_first_after: "fst (store_find nursery_less (QNumber 0)) = Inr (FRecord (person 2 bob))"
  using store_find_number [of 0 nursery_less] by (simp add: nursery_less_data)

text \<open>
  C7 at the same store. \<open>remove(0)\<close> returns Ann's record and \<open>find(0)\<close> then returns
  Bob's, which has moved to position 0. The index is what it was: Ann's position is still
  in her bucket, and Bob's bucket still holds position 1, which was not shifted down.
  The indexed \<open>find({name: 'Bob'})\<close> reads \<open>_data[1]\<close>, which is \<open>undefined\<close>, and
  throws, while the linear scan finds Bob.
\<close>

theorem remove_keeps_index:
  "fst (remove nursery 0) = Inr (Some (person 1 ann))
   \<and> s_data (snd (remove nursery 0)) = [person 2 bob]
   \<and> fst (store_find (snd (remove nursery 0)) (QNumber 0)) = Inr (FRecord (person 2 bob))
   \<and> s_index (snd (remove nursery 0))
       = [(''name'', [[JStr ''Ann'', JNum 0], [JStr ''Bob'', JNum 1]]),
          (''age'', [[JNum 0, JNum 0, JNum 1]])]
   \<and> fst (store_find (snd (remove nursery 0)) (QObject [(''name'', JStr ''Bob'')]))
       = Inl TypeError
   \<and> fst (store_find (snd (remove nursery 0)) (QFunction (named ''Bob'')))
       = Inr (FRecords [Some (person 2 bob)])"
  by (simp add: remove_ann nursery_less_data find_first_after find_bob_indexed find_bob_scan)

section \<open>Sorting\<close>

lemma nameless_eq:
  "nameless = \<lparr> ref = 2, idAttribute = ''id'', datafields = [''name'', ''id''],
                autoid = False, dataMap = None, raw = [(''name'', JNull)],
                oid = JNull, benchmark = JNull, changelog = [] \<rparr>"
  by (simp add: nameless_def new_Model_def id_attribute_def auto_id_def name_cfg_def
      declared_fields_def obj_has_def lower_name)

lemma nameless_checksum:
  "model_checksum nameless = Inr (checksum (JSON_stringify [(''name'', JNull)]))"
  by (simp add: model_checksum_def model_data_def serialize_def nameless_eq obj_has_def
      obj_get_def key_ok_name)

lemma mixed_data:
  "s_data mixed = [person 1 doe, nameless] \<and> s_filters mixed = [] \<and> s_index mixed = []"
  by (simp add: mixed_def add_def new_Store_def add_record_def isDuplicate_def applyIndices_def
      doe_def person_checksum nameless_checksum)

lemma sort_compare_skip:
  "list_all (same_at a b) pre \<Longrightarrow> sort_compare h (pre @ rest) a b = sort_compare h rest a b"
  by (induction pre) (auto simp: same_at_def)

lemma same_at_sym: "same_at a b = same_at b a"
  by (auto simp: same_at_def fun_eq_iff)

lemma sort_compare_decided:
  "\<not> same_at a b (k, d) \<Longrightarrow> sort_compare h ((k, d) # post) a b = sort_compare h [(k, d)] a b"
  by (auto simp: same_at_def)

lemma sort_compare_has_lacks:
  "has_own a k \<Longrightarrow> \<not> has_own b k \<Longrightarrow> sort_compare h ((k, d) # post) a b = Inr 1"
  by simp

lemma sort_compare_lacks_has:
  "has_own a k \<Longrightarrow> \<not> has_own b k \<Longrightarrow> sort_compare h ((k, d) # post) b a = Inr (- 1)"
  by simp

lemma array_sort_pair_swap:
  "cmp a b = Inr 1 \<Longrightarrow> array_sort cmp [a, b] = Inr [b, a]"
  by (simp add: array_sort_def)

lemma array_sort_pair_keep:
  "cmp b a = Inr (- 1) \<Longrightarrow> array_sort cmp [b, a] = Inr [b, a]"
  by (simp add: array_sort_def)

text \<open>
  C6, as amended. With a map from field names to directions, two records are compared
  key by key in the order of the map: the keys on which they agree are passed by, and the
  first key on which they differ gives the result, whatever keys follow. When that key is
  a field that one record has and the other lacks, the comparator gives \<open>1\<close> for (has,
  lacks) and \<open>-1\<close> for (lacks, has): the record lacking the field is ordered first,
  before the record that has it.
\<close>

theorem sort_compare_first_difference:
  assumes "list_all (same_at a b) pre"
  shows "(\<not> same_at a b (k, d) \<longrightarrow>
            sort_compare h (pre @ (k, d) # post) a b = sort_compare h [(k, d)] a b)
         \<and> (has_own a k \<and> \<not> has_own b k \<longrightarrow>
              sort_compare h (pre @ (k, d) # post) a b = Inr 1
              \<and> sort_compare h (pre @ (k, d) # post) b a = Inr (- 1)
              \<and> array_sort (sort_compare h (pre @ (k, d) # post)) [a, b] = Inr [b, a]
              \<and> array_sort (sort_compare h (pre @ (k, d) # post)) [b, a] = Inr [b, a])"
proof -
  have ab: "sort_compare h (pre @ (k, d) # post) a b = sort_compare h ((k, d) # post) a b"
    using assms by (rule sort_compare_skip)
  have "list_all (same_at b a) pre" using assms by (simp add: same_at_sym)
  then have ba: "sort_compare h (pre @ (k, d) # post) b a = sort_compare h ((k, d) # post) b a"
    by (rule sort_compare_skip)
  have first: "\<not> same_at a b (k, d) \<Longrightarrow>
      sort_compare h (pre @ (k, d) # post) a b = sort_compare h [(k, d)] a b"
    unfolding ab by (rule sort_compare_decided)
  have second: "sort_compare h (pre @ (k, d) # post) a b = Inr 1"
    if "has_own a k" "\<not> has_own b k"
    unfolding ab using that by (rule sort_compare_has_lacks)
  have third: "sort_compare h (pre @ (k, d) # post) b a = Inr (- 1)"
    if "has_own a k" "\<not> has_own b k"
    unfolding ba using that by (rule sort_compare_lacks_has)
  show ?thesis
    using first second third
      array_sort_pair_swap [of "sort_compare h (pre @ (k, d) # post)" a b]
      array_sort_pair_keep [of "sort_compare h (pre @ (k, d) # post)" b a]
    by blast
qed


theorem sort_compare_first_difference_witness:
  "sort_compare host0 [(''name'', DString ''asc''), (''age'', DString ''desc'')]
       (person 1 [(''name'', JStr ''Doe''), (''age'', JNum 37)])
       (person 2 [(''name'', JStr ''Doe''), (''age'', JNum 36)]) = Inr (- 1)
   \<and> array_sort (sort_compare host0 [(''age'', DString ''desc'')]) [person 1 doe, nameless]
       = Inr [nameless, person 1 doe]"
proof -
  let ?a = "person 1 [(''name'', JStr ''Doe''), (''age'', JNum 37)]"
  let ?b = "person 2 [(''name'', JStr ''Doe''), (''age'', JNum 36)]"
  have a: "list_all (same_at ?a ?b) [(''name'', DString ''asc'')]"
    by (simp add: same_at_def has_own_def model_get_def person_def obj_has_def obj_get_def)
  have b: "\<not> same_at ?a ?b (''age'', DString ''desc'')"
    by (simp add: same_at_def has_own_def model_get_def person_def obj_has_def obj_get_def)
  have c: "sort_compare host0 [(''age'', DString ''desc'')] ?a ?b = Inr (- 1)"
    by (simp add: has_own_def model_get_def person_def obj_has_def obj_get_def toLowerCase_def
        lower_char_def trim_def is_space_def js_less_def)
  have d: "list_all (same_at (person 1 doe) nameless) []" by simp
  have e: "has_own (person 1 doe) ''age'' \<and> \<not> has_own nameless ''age''"
    by (simp add: has_own_def person_def nameless_eq doe_def obj_has_def)
  have one: "sort_compare host0 ([(''name'', DString ''asc'')] @ (''age'', DString ''desc'') # []) ?a ?b
      = Inr (- 1)"
    using sort_compare_first_difference [OF a, of "''age''" "DString ''desc''" host0 "[]"] b c
    by (simp only: simp_thms)
  have two: "array_sort (sort_compare host0 ([] @ (''age'', DString ''desc'') # []))
        [person 1 doe, nameless] = Inr [nameless, person 1 doe]"
    using sort_compare_first_difference [OF d, of "''age''" "DString ''desc''" host0 "[]"] e
    by (simp only: simp_thms)
  from one two show ?thesis by (simp only: append.simps simp_thms)
qed

text \<open>
  A store that holds a person, who has an \<open>age\<close>, before a record that has no such
  field: \<open>sort({age: 'asc'})\<close> puts the record lacking the field first.
\<close>

lemma sort_person_nameless:
  "sort_compare host0 [(''age'', DString ''asc'')] (person 1 doe) nameless = Inr 1"
  by (simp add: has_own_def person_def nameless_eq doe_def obj_has_def)

theorem sort_missing_field_first:
  "has_own (person 1 doe) ''age'' \<and> \<not> has_own nameless ''age''
   \<and> map ref (s_data mixed) = [1, 2]
   \<and> sort_compare host0 [(''age'', DString ''asc'')] (person 1 doe) nameless = Inr 1
   \<and> (case store_sort host0 mixed (SObject [(''age'', DString ''asc'')]) of
         Inl e \<Rightarrow> [] | Inr s \<Rightarrow> map ref (s_data s)) = [2, 1]"
proof -
  have a: "has_own (person 1 doe) ''age'' \<and> \<not> has_own nameless ''age''"
    by (simp add: has_own_def person_def nameless_eq doe_def obj_has_def)
  have b: "map ref (s_data mixed) = [1, 2]"
    by (simp add: mixed_data) (simp add: person_def nameless_eq)
  have "array_sort (sort_compare host0 [(''age'', DString ''asc'')]) (s_data mixed)
          = Inr [nameless, person 1 doe]"
    using sort_person_nameless by (simp add: mixed_data array_sort_pair_swap)
  then have c: "(case store_sort host0 mixed (SObject [(''age'', DString ''asc'')]) of
         Inl e \<Rightarrow> [] | Inr s \<Rightarrow> map ref (s_data s)) = [ref nameless, ref (person 1 doe)]"
    by (simp add: store_sort_def reindex_def)
  have d: "ref nameless = 2" "\<And>r x. ref (person r x) = r" by (simp_all add: person_def nameless_eq)
  show ?thesis using a b c sort_person_nameless by (simp add: d)
qed

section \<open>Bulk load of a store's data\<close>

lemma obj_has_Nil: "obj_has [] k = False"
  by (simp add: obj_has_def)

lemma obj_has_Cons: "obj_has (p # rw) k = (fst p = k \<or> obj_has rw k)"
  by (auto simp: obj_has_def)

lemma obj_has_append: "obj_has (rw @ e) k = (obj_has rw k \<or> obj_has e k)"
  by (auto simp: obj_has_def)


lemma keys_obj_set_old: "obj_has rw f \<Longrightarrow> map fst (obj_set rw f v) = map fst rw"
  by (induction rw) (auto simp: obj_has_Nil obj_has_Cons)





















lemma model_data_benchmark [simp]:
  "model_data (m\<lparr>benchmark := b\<rparr>) = model_data m"
proof -
  have "\<And>ks rtn. serialize_loop (m\<lparr>benchmark := b\<rparr>) ks rtn = serialize_loop m ks rtn"
  proof -
    fix ks rtn
    show "serialize_loop (m\<lparr>benchmark := b\<rparr>) ks rtn = serialize_loop m ks rtn"
      by (induction ks arbitrary: rtn) (auto simp: Let_def)
  qed
  then show ?thesis
    by (simp add: model_data_def serialize_def model_get_def Let_def split: sum.splits option.splits)
qed

















end
